theory Spec2Isabelle
  imports Complex_Main "HOL-Library.Multiset" "HOL-Library.Char_ord" "HOL-Library.List_Lexorder"
    "HOL-Library.Product_Lexorder"
begin

section \<open>Python values\<close>

text \<open>
  The program is Python, so a field of a reference holds any object. The values the
  program handles are \<^verbatim>\<open>None\<close>, strings, integers and floats. A string is kept as the
  list of its UTF-8 bytes: emptiness and equality are those of the Python string, and
  the bytewise lexicographic order is the order of the code points that Python's
  \<^verbatim>\<open><\<close> on \<^verbatim>\<open>str\<close> uses.

  A float is a real number, an infinity or NaN. Only comparisons and truthiness of floats
  are used by the program, and those are exact on the value a float denotes; the two
  zeros denote the same value and both are falsy.
\<close>

datatype pyfloat = NaN | NegInf | Fin real | PosInf

datatype pyval = PyNone | PyStr string | PyInt int | PyFloat pyfloat

datatype error =
  TypeError | ValueError | KeyError | AttributeError string | IndexError | FileNotFoundError
  | OSError | CsvError | UnicodeDecodeError

definition bind :: "error + 'a \<Rightarrow> ('a \<Rightarrow> error + 'b) \<Rightarrow> error + 'b" where
  "bind m f = (case m of Inl e \<Rightarrow> Inl e | Inr x \<Rightarrow> f x)"

text \<open>\<^verbatim>\<open>bool(v)\<close>: what \<^verbatim>\<open>all([...])\<close> tests on each element.\<close>

fun truthy :: "pyval \<Rightarrow> bool" where
  "truthy PyNone = False"
| "truthy (PyStr s) = (s \<noteq> [])"
| "truthy (PyInt i) = (i \<noteq> 0)"
| "truthy (PyFloat f) = (f \<noteq> Fin 0)"

text \<open>IEEE comparison: every comparison with NaN is false.\<close>

fun flt_lt :: "pyfloat \<Rightarrow> pyfloat \<Rightarrow> bool" where
  "flt_lt NaN _ = False"
| "flt_lt _ NaN = False"
| "flt_lt NegInf NegInf = False"
| "flt_lt NegInf _ = True"
| "flt_lt (Fin a) NegInf = False"
| "flt_lt (Fin a) (Fin b) = (a < b)"
| "flt_lt (Fin a) PosInf = True"
| "flt_lt PosInf _ = False"

fun flt_le :: "pyfloat \<Rightarrow> pyfloat \<Rightarrow> bool" where
  "flt_le NaN _ = False"
| "flt_le _ NaN = False"
| "flt_le a b = (a = b \<or> flt_lt a b)"

text \<open>
  \<^verbatim>\<open>a < b\<close> on objects: strings compare with strings, numbers with numbers (an int is
  compared with a float by value), anything else raises \<^verbatim>\<open>TypeError\<close>, also
  \<^verbatim>\<open>None < None\<close>.
\<close>

fun py_lt :: "pyval \<Rightarrow> pyval \<Rightarrow> error + bool" where
  "py_lt (PyStr a) (PyStr b) = Inr (a < b)"
| "py_lt (PyInt a) (PyInt b) = Inr (a < b)"
| "py_lt (PyInt a) (PyFloat b) = Inr (flt_lt (Fin (real_of_int a)) b)"
| "py_lt (PyFloat a) (PyInt b) = Inr (flt_lt a (Fin (real_of_int b)))"
| "py_lt (PyFloat a) (PyFloat b) = Inr (flt_lt a b)"
| "py_lt _ _ = Inl TypeError"

fun py_le :: "pyval \<Rightarrow> pyval \<Rightarrow> error + bool" where
  "py_le (PyStr a) (PyStr b) = Inr (a \<le> b)"
| "py_le (PyInt a) (PyInt b) = Inr (a \<le> b)"
| "py_le (PyInt a) (PyFloat b) = Inr (flt_le (Fin (real_of_int a)) b)"
| "py_le (PyFloat a) (PyInt b) = Inr (flt_le a (Fin (real_of_int b)))"
| "py_le (PyFloat a) (PyFloat b) = Inr (flt_le a b)"
| "py_le _ _ = Inl TypeError"


section \<open>StudentReference\<close>

text \<open>
  An instance has the five attributes of \<^verbatim>\<open>_fields\<close>, the flag \<^verbatim>\<open>_initialized\<close>
  and, while the flag is off, whatever other attribute is stored on it.
\<close>

record StudentReference =
  ref_id :: pyval
  date :: pyval
  full_name :: pyval
  stipend :: pyval
  destination :: pyval
  initialized :: bool
  other_attrs :: "(string \<times> pyval) list"

definition StudentReference_fields :: "string list" where
  "StudentReference_fields = [''id'', ''date'', ''full_name'', ''stipend'', ''destination'']"

text \<open>\<^verbatim>\<open>kwargs.get(key, None)\<close>\<close>

definition kwargs_get :: "(string \<rightharpoonup> pyval) \<Rightarrow> string \<Rightarrow> pyval" where
  "kwargs_get kwargs key = (case kwargs key of None \<Rightarrow> PyNone | Some v \<Rightarrow> v)"

text \<open>The object as \<^verbatim>\<open>__init__\<close> leaves it.\<close>

definition StudentReference_init :: "(string \<rightharpoonup> pyval) \<Rightarrow> StudentReference" where
  "StudentReference_init kwargs =
     \<lparr> ref_id = kwargs_get kwargs ''id'',
       date = kwargs_get kwargs ''date'',
       full_name = kwargs_get kwargs ''full_name'',
       stipend = kwargs_get kwargs ''stipend'',
       destination = kwargs_get kwargs ''destination'',
       initialized = True,
       other_attrs = [] \<rparr>"

text \<open>
  \<^verbatim>\<open>object.__setattr__(self, name, value)\<close>: the store itself. Only the truth value
  of \<^verbatim>\<open>_initialized\<close> is ever read.
\<close>

definition object_setattr :: "StudentReference \<Rightarrow> string \<Rightarrow> pyval \<Rightarrow> StudentReference" where
  "object_setattr self name v =
     (if name = ''id'' then self\<lparr>ref_id := v\<rparr>
      else if name = ''date'' then self\<lparr>date := v\<rparr>
      else if name = ''full_name'' then self\<lparr>full_name := v\<rparr>
      else if name = ''stipend'' then self\<lparr>stipend := v\<rparr>
      else if name = ''destination'' then self\<lparr>destination := v\<rparr>
      else if name = ''_initialized'' then self\<lparr>initialized := truthy v\<rparr>
      else self\<lparr>other_attrs := (name, v) # filter (\<lambda>p. fst p \<noteq> name) (other_attrs self)\<rparr>)"

text \<open>\<^verbatim>\<open>StudentReference.__setattr__\<close>: the outcome and the object afterwards.\<close>

definition setattr :: "StudentReference \<Rightarrow> string \<Rightarrow> pyval \<Rightarrow> error + StudentReference" where
  "setattr self name v =
     (if name \<notin> set StudentReference_fields \<and> initialized self then Inl (AttributeError name)
      else Inr (object_setattr self name v))"

definition validate :: "StudentReference \<Rightarrow> error + unit" where
  "validate self =
     (if \<not> list_all truthy
             [ref_id self, date self, full_name self, stipend self, destination self]
      then Inl ValueError else Inr ())"

section \<open>ReferenceCollection\<close>

text \<open>
  What can be handed to \<^verbatim>\<open>add\<close>: a \<^verbatim>\<open>StudentReference\<close> or some other object.
\<close>

datatype pyobj = Ref StudentReference | Val pyval

record ReferenceCollection =
  data :: "StudentReference list"

definition ReferenceCollection_init :: ReferenceCollection where
  "ReferenceCollection_init = \<lparr> data = [] \<rparr>"

text \<open>
  \<^verbatim>\<open>add\<close> mutates the collection or raises; the result is the exception, if any, and
  the collection afterwards. The first equation is the branch where
  \<^verbatim>\<open>isinstance(item, StudentReference)\<close> is false.
\<close>

fun add :: "ReferenceCollection \<Rightarrow> pyobj \<Rightarrow> error option \<times> ReferenceCollection" where
  "add self (Val v) = (Some TypeError, self)"
| "add self (Ref item) = (None, self\<lparr>data := data self @ [item]\<rparr>)"

text \<open>
  \<^verbatim>\<open>self._data[index]\<close> for an integer index: a negative index counts from the end,
  and an index that is still out of range raises \<^verbatim>\<open>IndexError\<close>.
\<close>

definition getitem :: "ReferenceCollection \<Rightarrow> int \<Rightarrow> error + StudentReference" where
  "getitem self index =
     (let n = int (length (data self));
          i = (if index < 0 then index + n else index)
      in if 0 \<le> i \<and> i < n then Inr (data self ! nat i) else Inl IndexError)"

section \<open>Filtering and sorting\<close>



text \<open>
  \<^verbatim>\<open>list.sort(key=f)\<close> is a stable sort that compares keys with \<^verbatim>\<open><\<close> only and
  raises what a comparison raises. It is written here as the stable insertion sort with
  that comparison: an element goes in front of the first one that is not smaller than
  it. Where \<^verbatim>\<open><\<close> orders the keys totally this is the one stable sorted arrangement,
  which is what \<^verbatim>\<open>list.sort\<close> produces. With a NaN among the keys \<^verbatim>\<open><\<close> is no
  order, and the arrangement that \<^verbatim>\<open>list.sort\<close> reaches depends on its run
  detection and merging: it can differ from the one below, and the properties proved of
  sorting do not rest on it. The one NaN input evaluated below, \<^verbatim>\<open>[nan, 900.0]\<close>, is
  left as it is by both.
  After an exception Python leaves the list in no specified order, so the failing result
  carries no list.
\<close>

fun insort_py :: "('a \<Rightarrow> pyval) \<Rightarrow> 'a \<Rightarrow> 'a list \<Rightarrow> error + 'a list" where
  "insort_py key x [] = Inr [x]"
| "insort_py key x (y # ys) =
     bind (py_lt (key y) (key x)) (\<lambda>b.
       if b then bind (insort_py key x ys) (\<lambda>zs. Inr (y # zs)) else Inr (x # y # ys))"

fun list_sort :: "('a \<Rightarrow> pyval) \<Rightarrow> 'a list \<Rightarrow> error + 'a list" where
  "list_sort key [] = Inr []"
| "list_sort key (x # xs) = bind (list_sort key xs) (insort_py key x)"

text \<open>\<^verbatim>\<open>EnhancedReferenceCollection.sort_by\<close>; \<^verbatim>\<open>field\<close> is any object.\<close>

definition sort_by :: "ReferenceCollection \<Rightarrow> pyval \<Rightarrow> error + ReferenceCollection" where
  "sort_by self field =
     (if field = PyStr ''name'' then
        bind (list_sort full_name (data self)) (\<lambda>xs. Inr (self\<lparr>data := xs\<rparr>))
      else if field = PyStr ''stipend'' then
        bind (list_sort stipend (data self)) (\<lambda>xs. Inr (self\<lparr>data := xs\<rparr>))
      else Inr self)"

section \<open>CSV files\<close>

text \<open>
  The csv module, the text layer and the operating system are library code. A file is
  kept as what reading it delivers, item by item: a row of cells as \<^verbatim>\<open>csv.writer\<close>
  was given it, a blank line being the empty row, or the place where the bytes cannot
  be decoded. Quoting, the delimiter and the encoding with its byte-order mark are the
  same on both sides and are not represented.

  The file system holds the files that exist and the answers of the operating system:
  whether opening a path for reading is refused although the path may exist (a
  directory, a missing permission), and how writing to a path goes: all rows reach the
  file, the open fails (a missing directory, an empty path), or only the first rows
  reach the file (a write raises, or the device drops what it is given).

  \<^verbatim>\<open>float\<close> on a string and \<^verbatim>\<open>repr\<close> of a float are library functions too and are
  parameters.
\<close>

datatype csv_item = Row "string list" | Undecodable

datatype writing = Succeeds | OpenFails | FailsAfter nat

record filesystem =
  contents :: "string \<rightharpoonup> csv_item list"
  read_denied :: "string \<Rightarrow> bool"
  on_write :: "string \<Rightarrow> writing"

record pylib =
  float_of_str :: "string \<Rightarrow> pyfloat option"
  repr_float :: "pyfloat \<Rightarrow> string"

text \<open>
  The five column names of the source, as UTF-8 bytes: the numero sign, and in Russian
  "date", "full name of the student", "amount of the stipend" and "where the reference
  is issued to".
\<close>

definition key_no :: string where
  "key_no = [CHR 0xE2, CHR 0x84, CHR 0x96]"

definition key_date :: string where
  "key_date = [CHR 0xD0, CHR 0xB4, CHR 0xD0, CHR 0xB0, CHR 0xD1, CHR 0x82, CHR 0xD0, CHR 0xB0]"

definition key_name :: string where
  "key_name = [CHR 0xD0, CHR 0xA4, CHR 0xD0, CHR 0x98, CHR 0xD0, CHR 0x9E, CHR 0x20, CHR 0xD1,
     CHR 0x81, CHR 0xD1, CHR 0x82, CHR 0xD1, CHR 0x83, CHR 0xD0, CHR 0xB4, CHR 0xD0, CHR 0xB5,
     CHR 0xD0, CHR 0xBD, CHR 0xD1, CHR 0x82, CHR 0xD0, CHR 0xB0]"

definition key_stipend :: string where
  "key_stipend = [CHR 0xD1, CHR 0x80, CHR 0xD0, CHR 0xB0, CHR 0xD0, CHR 0xB7, CHR 0xD0, CHR 0xBC,
     CHR 0xD0, CHR 0xB5, CHR 0xD1, CHR 0x80, CHR 0x20, CHR 0xD1, CHR 0x81, CHR 0xD1, CHR 0x82,
     CHR 0xD0, CHR 0xB8, CHR 0xD0, CHR 0xBF, CHR 0xD0, CHR 0xB5, CHR 0xD0, CHR 0xBD, CHR 0xD0,
     CHR 0xB4, CHR 0xD0, CHR 0xB8, CHR 0xD0, CHR 0xB8]"

definition key_destination :: string where
  "key_destination = [CHR 0xD0, CHR 0xBA, CHR 0xD1, CHR 0x83, CHR 0xD0, CHR 0xB4, CHR 0xD0,
     CHR 0xB0, CHR 0x20, CHR 0xD0, CHR 0xB2, CHR 0xD1, CHR 0x8B, CHR 0xD0, CHR 0xB4, CHR 0xD0,
     CHR 0xB0, CHR 0xD0, CHR 0xB5, CHR 0xD1, CHR 0x82, CHR 0xD1, CHR 0x81, CHR 0xD1, CHR 0x8F,
     CHR 0x20, CHR 0xD1, CHR 0x81, CHR 0xD0, CHR 0xBF, CHR 0xD1, CHR 0x80, CHR 0xD0, CHR 0xB0,
     CHR 0xD0, CHR 0xB2, CHR 0xD0, CHR 0xBA, CHR 0xD0, CHR 0xB0]"

definition fieldnames :: "string list" where
  "fieldnames = [key_no, key_date, key_name, key_stipend, key_destination]"

subsection \<open>Reading\<close>

text \<open>
  \<^verbatim>\<open>from_csv\<close> opens the file without \<^verbatim>\<open>newline=''\<close>, so the text layer hands on
  \<^verbatim>\<open>\r\n\<close> and \<^verbatim>\<open>\r\<close> as \<^verbatim>\<open>\n\<close>, also inside a quoted cell.
\<close>

fun universal_newlines :: "string \<Rightarrow> string" where
  "universal_newlines [] = []"
| "universal_newlines [c] = (if c = CHR 0x0D then [CHR 0x0A] else [c])"
| "universal_newlines (c # d # cs) =
     (if c = CHR 0x0D then
        (if d = CHR 0x0A then CHR 0x0A # universal_newlines cs
         else CHR 0x0A # universal_newlines (d # cs))
      else c # universal_newlines (d # cs))"

text \<open>
  The number of characters of a string: the bytes that do not continue a UTF-8
  sequence.
\<close>

definition py_len :: "string \<Rightarrow> nat" where
  "py_len s = length (filter (\<lambda>c. \<not> (0x80 \<le> (of_char c :: nat) \<and> (of_char c :: nat) < 0xC0)) s)"

text \<open>\<^verbatim>\<open>csv.field_size_limit()\<close>, which the program leaves at its default.\<close>

definition field_limit :: nat where
  "field_limit = 131072"

text \<open>
  One step of \<^verbatim>\<open>csv.reader\<close>: the next row, or the exception of the text layer or
  of the reader, which refuses a cell longer than the limit.
\<close>

fun reader_next :: "csv_item \<Rightarrow> error + string list" where
  "reader_next Undecodable = Inl UnicodeDecodeError"
| "reader_next (Row cells) =
     (if \<exists>c \<in> set (map universal_newlines cells). field_limit < py_len c then Inl CsvError
      else Inr (map universal_newlines cells))"

text \<open>
  A row of \<^verbatim>\<open>csv.DictReader\<close> maps a column name to the cell, a string, or to
  \<^verbatim>\<open>None\<close> where the row is shorter than the header (\<^verbatim>\<open>restval\<close>). Surplus cells go
  under the key \<^verbatim>\<open>None\<close>, which no lookup by name sees.
\<close>

type_synonym row_dict = "string \<rightharpoonup> string option"

definition make_row :: "string list \<Rightarrow> string list \<Rightarrow> row_dict" where
  "make_row names row =
     fold (\<lambda>k d. d(k \<mapsto> None)) (drop (length row) names)
       (fold (\<lambda>(k, c) d. d(k \<mapsto> Some c)) (zip names row) Map.empty)"

text \<open>
  What iterating \<^verbatim>\<open>csv.DictReader\<close> delivers: the first row is the header, empty
  rows after it are skipped, and an exception of the reader ends the iteration.
\<close>

fun dict_rows :: "string list \<Rightarrow> csv_item list \<Rightarrow> (error + row_dict) list" where
  "dict_rows names [] = []"
| "dict_rows names (item # rest) =
     (case reader_next item of
        Inl e \<Rightarrow> [Inl e]
      | Inr row \<Rightarrow> if row = [] then dict_rows names rest
                   else Inr (make_row names row) # dict_rows names rest)"

definition DictReader :: "csv_item list \<Rightarrow> (error + row_dict) list" where
  "DictReader items =
     (case items of
        [] \<Rightarrow> []
      | item # rest \<Rightarrow>
          (case reader_next item of Inl e \<Rightarrow> [Inl e] | Inr names \<Rightarrow> dict_rows names rest))"

text \<open>\<^verbatim>\<open>row[key]\<close>\<close>

definition dict_getitem :: "row_dict \<Rightarrow> string \<Rightarrow> error + string option" where
  "dict_getitem row key = (case row key of None \<Rightarrow> Inl KeyError | Some c \<Rightarrow> Inr c)"

definition cell_val :: "string option \<Rightarrow> pyval" where
  "cell_val c = (case c of None \<Rightarrow> PyNone | Some s \<Rightarrow> PyStr s)"

text \<open>\<^verbatim>\<open>float(c)\<close> for a cell: \<^verbatim>\<open>None\<close> is a \<^verbatim>\<open>TypeError\<close>, bad text a \<^verbatim>\<open>ValueError\<close>.\<close>

definition py_float :: "pylib \<Rightarrow> string option \<Rightarrow> error + pyval" where
  "py_float lib c =
     (case c of
        None \<Rightarrow> Inl TypeError
      | Some s \<Rightarrow> (case float_of_str lib s of None \<Rightarrow> Inl ValueError | Some f \<Rightarrow> Inr (PyFloat f)))"

text \<open>The constructor call of \<^verbatim>\<open>from_csv\<close>, its arguments evaluated left to right.\<close>

definition row_to_ref :: "pylib \<Rightarrow> row_dict \<Rightarrow> error + StudentReference" where
  "row_to_ref lib row =
     bind (dict_getitem row key_no) (\<lambda>a.
     bind (dict_getitem row key_date) (\<lambda>b.
     bind (dict_getitem row key_name) (\<lambda>c.
     bind (bind (dict_getitem row key_stipend) (py_float lib)) (\<lambda>d.
     bind (dict_getitem row key_destination) (\<lambda>e.
       Inr (StudentReference_init
              [''id'' \<mapsto> cell_val a, ''date'' \<mapsto> cell_val b, ''full_name'' \<mapsto> cell_val c,
               ''stipend'' \<mapsto> d, ''destination'' \<mapsto> cell_val e]))))))"

text \<open>The body of the inner \<^verbatim>\<open>try\<close>.\<close>

definition load_row :: "pylib \<Rightarrow> row_dict \<Rightarrow> ReferenceCollection \<Rightarrow> error + ReferenceCollection" where
  "load_row lib row collection =
     bind (row_to_ref lib row) (\<lambda>ref.
     bind (validate ref) (\<lambda>_.
       case add collection (Ref ref) of
         (Some e, _) \<Rightarrow> Inl e
       | (None, collection') \<Rightarrow> Inr collection'))"

text \<open>
  The loop over the rows. An exception of the reader is raised by the \<^verbatim>\<open>for\<close>
  statement, outside the inner \<^verbatim>\<open>try\<close>, and leaves the loop. Inside it
  \<^verbatim>\<open>KeyError\<close> and \<^verbatim>\<open>ValueError\<close> are caught and make the function return
  \<^verbatim>\<open>None\<close>; any other exception leaves the loop.
\<close>

fun load_rows ::
  "pylib \<Rightarrow> (error + row_dict) list \<Rightarrow> ReferenceCollection \<Rightarrow> error + ReferenceCollection option" where
  "load_rows lib [] collection = Inr (Some collection)"
| "load_rows lib (Inl e # rows) collection = Inl e"
| "load_rows lib (Inr row # rows) collection =
     (case load_row lib row collection of
        Inl e \<Rightarrow> if e = KeyError \<or> e = ValueError then Inr None else Inl e
      | Inr collection' \<Rightarrow> load_rows lib rows collection')"

text \<open>\<^verbatim>\<open>open(filename, 'r', encoding='utf-8-sig')\<close>\<close>

definition open_read :: "filesystem \<Rightarrow> string \<Rightarrow> error + csv_item list" where
  "open_read fs filename =
     (if read_denied fs filename then Inl OSError
      else case contents fs filename of
             None \<Rightarrow> Inl FileNotFoundError
           | Some items \<Rightarrow> Inr items)"

text \<open>
  \<^verbatim>\<open>from_csv\<close>: \<open>Inr (Some c)\<close> is the collection returned, \<open>Inr None\<close> the return of
  \<^verbatim>\<open>None\<close>, \<open>Inl e\<close> an exception that reaches the caller.
\<close>

definition from_csv :: "pylib \<Rightarrow> filesystem \<Rightarrow> string \<Rightarrow> error + ReferenceCollection option" where
  "from_csv lib fs filename =
     (case bind (open_read fs filename)
             (\<lambda>items. load_rows lib (DictReader items) ReferenceCollection_init) of
        Inl e \<Rightarrow> if e = FileNotFoundError then Inr None else Inl e
      | Inr r \<Rightarrow> Inr r)"

subsection \<open>Writing\<close>

definition to_dict :: "StudentReference \<Rightarrow> (string \<times> pyval) list" where
  "to_dict self =
     [(key_no, ref_id self), (key_date, date self), (key_name, full_name self),
      (key_stipend, stipend self), (key_destination, destination self)]"

function str_nat :: "nat \<Rightarrow> string" where
  "str_nat n = (if n < 10 then [''0123456789'' ! n]
                else str_nat (n div 10) @ [''0123456789'' ! (n mod 10)])"
  by pat_completeness auto
termination
  by (relation "measure id") auto

definition str_int :: "int \<Rightarrow> string" where
  "str_int i = (if i < 0 then CHR ''-'' # str_nat (nat (- i)) else str_nat (nat i))"

text \<open>How \<^verbatim>\<open>csv.writer\<close> turns a value into a cell: \<^verbatim>\<open>None\<close> is the empty cell.\<close>

fun cell_of :: "pylib \<Rightarrow> pyval \<Rightarrow> string" where
  "cell_of lib PyNone = []"
| "cell_of lib (PyStr s) = s"
| "cell_of lib (PyInt i) = str_int i"
| "cell_of lib (PyFloat f) = repr_float lib f"

text \<open>
  \<^verbatim>\<open>DictWriter._dict_to_list\<close>: a key that is no column raises \<^verbatim>\<open>ValueError\<close>, a
  column without a key gets the empty string.
\<close>

definition dict_to_list :: "string list \<Rightarrow> (string \<times> pyval) list \<Rightarrow> error + pyval list" where
  "dict_to_list names rowdict =
     (if \<exists>k \<in> set (map fst rowdict). k \<notin> set names then Inl ValueError
      else Inr (map (\<lambda>k. case map_of rowdict k of None \<Rightarrow> PyStr [] | Some v \<Rightarrow> v) names))"

text \<open>
  The rows handed to the writer until an exception of \<^verbatim>\<open>writerow\<close>, which
  \<^verbatim>\<open>save_to_csv\<close> catches, ends the loop.
\<close>

fun write_rows :: "pylib \<Rightarrow> StudentReference list \<Rightarrow> string list list" where
  "write_rows lib [] = []"
| "write_rows lib (item # rest) =
     (case dict_to_list fieldnames (to_dict item) of
        Inl e \<Rightarrow> []
      | Inr vs \<Rightarrow> map (cell_of lib) vs # write_rows lib rest)"

text \<open>
  \<^verbatim>\<open>save_to_csv\<close> returns nothing; its effect is the file system afterwards. An
  empty collection is not written. Every exception of the open and of the writes is
  caught: when the open fails no file is touched, when a write fails the file holds the
  rows that reached it.
\<close>

definition save_to_csv :: "pylib \<Rightarrow> ReferenceCollection \<Rightarrow> filesystem \<Rightarrow> string \<Rightarrow> filesystem" where
  "save_to_csv lib self fs filename =
     (if data self = [] then fs
      else
        (case on_write fs filename of
           OpenFails \<Rightarrow> fs
         | FailsAfter n \<Rightarrow>
             fs\<lparr>contents := (contents fs)
                   (filename \<mapsto> map Row (take n (fieldnames # write_rows lib (data self))))\<rparr>
         | Succeeds \<Rightarrow>
             fs\<lparr>contents := (contents fs)
                   (filename \<mapsto> map Row (fieldnames # write_rows lib (data self)))\<rparr>))"

section \<open>Vocabulary of the properties\<close>

text \<open>
  Attribute assignments made one after the other from outside, \<^verbatim>\<open>r.name = v\<close>; an
  assignment that raises leaves the object as it was.
\<close>

fun assign_all :: "StudentReference \<Rightarrow> (string \<times> pyval) list \<Rightarrow> StudentReference" where
  "assign_all r [] = r"
| "assign_all r ((name, v) # rest) =
     (case setattr r name v of Inl e \<Rightarrow> assign_all r rest | Inr r' \<Rightarrow> assign_all r' rest)"


fun is_str :: "pyval \<Rightarrow> bool" where
  "is_str (PyStr _) = True"
| "is_str _ = False"

text \<open>A float other than NaN.\<close>

fun is_ordered_float :: "pyval \<Rightarrow> bool" where
  "is_ordered_float (PyFloat f) = (f \<noteq> NaN)"
| "is_ordered_float _ = False"

text \<open>Every element is \<^verbatim>\<open><=\<close> every later one, by Python's comparison of the keys.\<close>

definition nondecreasing :: "('a \<Rightarrow> pyval) \<Rightarrow> 'a list \<Rightarrow> bool" where
  "nondecreasing key xs = sorted_wrt (\<lambda>a b. py_le (key a) (key b) = Inr True) xs"

text \<open>
  Equality of the five fields as values. A NaN stipend has the same value as a NaN
  stipend here, although Python's \<^verbatim>\<open>==\<close> calls no NaN equal to another.
\<close>

definition same_fields :: "StudentReference \<Rightarrow> StudentReference \<Rightarrow> bool" where
  "same_fields a b \<longleftrightarrow>
     ref_id a = ref_id b \<and> date a = date b \<and> full_name a = full_name b \<and>
     stipend a = stipend b \<and> destination a = destination b"

text \<open>
  A non-empty string without a carriage return and within the reader's limit. (A string
  is a list of UTF-8 bytes, so it can be encoded.)
\<close>

fun plain_text :: "pyval \<Rightarrow> bool" where
  "plain_text (PyStr s) = (s \<noteq> [] \<and> CHR 0x0D \<notin> set s \<and> py_len s \<le> field_limit)"
| "plain_text _ = False"

text \<open>
  A valid record as the menu and \<^verbatim>\<open>from_csv\<close> build it: four such strings and a
  float that is not zero.
\<close>

definition text_record :: "StudentReference \<Rightarrow> bool" where
  "text_record r \<longleftrightarrow>
     plain_text (ref_id r) \<and> plain_text (date r) \<and> plain_text (full_name r) \<and>
     plain_text (destination r) \<and>
     (case stipend r of PyFloat f \<Rightarrow> f \<noteq> Fin 0 | _ \<Rightarrow> False)"

text \<open>
  \<^verbatim>\<open>float\<close> reads back what \<^verbatim>\<open>repr\<close> wrote for the stipend of a record, as
  Python's do for every float.
\<close>

definition reads_back :: "pylib \<Rightarrow> StudentReference \<Rightarrow> bool" where
  "reads_back lib r \<longleftrightarrow>
     (case stipend r of
        PyFloat f \<Rightarrow> CHR 0x0D \<notin> set (repr_float lib f) \<and>
                     py_len (repr_float lib f) \<le> field_limit \<and>
                     float_of_str lib (repr_float lib f) = Some f
      | _ \<Rightarrow> True)"

text \<open>The cells that \<^verbatim>\<open>save_to_csv\<close> hands to the writer for a record.\<close>

definition saved_cells :: "pylib \<Rightarrow> StudentReference \<Rightarrow> string list" where
  "saved_cells lib r =
     map (cell_of lib) [ref_id r, date r, full_name r, stipend r, destination r]"

text \<open>A record as a constructor call leaves it, with the fields of \<open>r\<close>.\<close>

definition rebuilt :: "StudentReference \<Rightarrow> StudentReference" where
  "rebuilt r = r\<lparr>initialized := True, other_attrs := []\<rparr>"

text \<open>A path that the file system lets the program write in full and read again.\<close>

definition usable :: "filesystem \<Rightarrow> string \<Rightarrow> bool" where
  "usable fs filename \<longleftrightarrow> on_write fs filename = Succeeds \<and> \<not> read_denied fs filename"

text \<open>Keys of the two kinds mapped into linear orders, for the proofs about sorting.\<close>

fun str_key :: "pyval \<Rightarrow> string" where
  "str_key (PyStr s) = s"
| "str_key _ = []"

fun flt_key :: "pyval \<Rightarrow> int \<times> real" where
  "flt_key (PyFloat NegInf) = (- 1, 0)"
| "flt_key (PyFloat (Fin r)) = (0, r)"
| "flt_key (PyFloat PosInf) = (1, 0)"
| "flt_key _ = (2, 0)"

section \<open>Example data\<close>

text \<open>\<^verbatim>\<open>StudentReference(id=i, date=d, full_name=n, stipend=s, destination=w)\<close>\<close>

definition new_ref :: "string \<Rightarrow> string \<Rightarrow> string \<Rightarrow> pyfloat \<Rightarrow> string \<Rightarrow> StudentReference" where
  "new_ref i d n s w =
     StudentReference_init
       [''id'' \<mapsto> PyStr i, ''date'' \<mapsto> PyStr d, ''full_name'' \<mapsto> PyStr n,
        ''stipend'' \<mapsto> PyFloat s, ''destination'' \<mapsto> PyStr w]"

definition ref_a :: StudentReference where
  "ref_a = new_ref ''1'' ''2024-01-10'' ''Petrov'' (Fin 900) ''bank''"

definition ref_b :: StudentReference where
  "ref_b = new_ref ''2'' ''2024-01-11'' ''Ivanov'' (Fin 1500) ''embassy''"

definition ref_c :: StudentReference where
  "ref_c = new_ref ''3'' ''2024-01-12'' ''Sidorov'' (Fin 2000) ''bank''"

definition three_refs :: ReferenceCollection where
  "three_refs = \<lparr> data = [ref_a, ref_b, ref_c] \<rparr>"

text \<open>A reference built with no argument: every field is \<^verbatim>\<open>None\<close>.\<close>

definition ref_zero :: StudentReference where
  "ref_zero = new_ref ''5'' ''2024-01-14'' ''Volkov'' (Fin 0) ''bank''"

definition blank_ref :: StudentReference where
  "blank_ref = StudentReference_init Map.empty"

definition ref_nan :: StudentReference where
  "ref_nan = new_ref ''4'' ''2024-01-13'' ''Orlov'' NaN ''bank''"

definition nan_refs :: ReferenceCollection where
  "nan_refs = \<lparr> data = [ref_nan, ref_a] \<rparr>"

text \<open>
  \<^verbatim>\<open>float\<close> and \<^verbatim>\<open>repr\<close> on the few values the examples use; the results on
  anything else are not meant.
\<close>

definition demo_lib :: pylib where
  "demo_lib =
     \<lparr> float_of_str = map_of
         [(''900.0'', Fin 900), (''1500.0'', Fin 1500), (''2000.0'', Fin 2000), (''nan'', NaN)],
       repr_float = (\<lambda>f. if f = Fin 900 then ''900.0'' else if f = Fin 1500 then ''1500.0''
                          else if f = Fin 2000 then ''2000.0'' else ''nan'') \<rparr>"

text \<open>A file system with the given files where nothing is refused.\<close>

definition plain_fs :: "(string \<rightharpoonup> csv_item list) \<Rightarrow> filesystem" where
  "plain_fs files = \<lparr> contents = files, read_denied = (\<lambda>p. False), on_write = (\<lambda>p. Succeeds) \<rparr>"

text \<open>A file with the header and three well-formed rows.\<close>

definition three_rows_fs :: filesystem where
  "three_rows_fs = plain_fs [''data.csv'' \<mapsto>
     [Row fieldnames,
      Row [''1'', ''2024-01-10'', ''Petrov'', ''900.0'', ''bank''],
      Row [''2'', ''2024-01-11'', ''Ivanov'', ''1500.0'', ''embassy''],
      Row [''3'', ''2024-01-12'', ''Sidorov'', ''2000.0'', ''bank'']]]"

text \<open>No file yet, and a directory \<^verbatim>\<open>nodir\<close> that does not exist.\<close>

definition no_dir_fs :: filesystem where
  "no_dir_fs =
     \<lparr> contents = Map.empty, read_denied = (\<lambda>p. False),
       on_write = (\<lambda>p. if p = ''nodir/data.csv'' then OpenFails else Succeeds) \<rparr>"

text \<open>A valid record with a carriage return in the name.\<close>

definition ref_cr :: StudentReference where
  "ref_cr = new_ref ''6'' ''2024-01-15'' [CHR ''A'', CHR 0x0D, CHR ''B''] (Fin 900) ''bank''"

text \<open>A valid record whose id is a number.\<close>

definition ref_int_id :: StudentReference where
  "ref_int_id =
     StudentReference_init
       [''id'' \<mapsto> PyInt 7, ''date'' \<mapsto> PyStr ''2024-01-16'', ''full_name'' \<mapsto> PyStr ''Smirnov'',
        ''stipend'' \<mapsto> PyFloat (Fin 900), ''destination'' \<mapsto> PyStr ''bank'']"


text \<open>A valid record whose name is one character longer than the reader's limit.\<close>

definition ref_long_name :: StudentReference where
  "ref_long_name =
     new_ref ''9'' ''2024-01-18'' (replicate (Suc field_limit) CHR ''x'') (Fin 900) ''bank''"

text \<open>A file whose only data row stops after the date.\<close>

definition short_row_fs :: filesystem where
  "short_row_fs = plain_fs [''data.csv'' \<mapsto> [Row fieldnames, Row [''1'', ''2024-01-10'']]]"

section \<open>Records\<close>

lemma truthy_iff: "truthy v \<longleftrightarrow> v \<notin> {PyNone, PyStr [], PyInt 0, PyFloat (Fin 0)}"
  by (cases v) auto

lemma new_ref_eq:
  "new_ref i d n s w =
     \<lparr> ref_id = PyStr i, date = PyStr d, full_name = PyStr n, stipend = PyFloat s,
       destination = PyStr w, initialized = True, other_attrs = [] \<rparr>"
  by (simp add: new_ref_def StudentReference_init_def kwargs_get_def)

text \<open>
  C2. \<^verbatim>\<open>validate\<close> succeeds exactly when each of the five fields is truthy, that is,
  is none of \<^verbatim>\<open>None\<close>, the empty string and zero; otherwise it raises \<^verbatim>\<open>ValueError\<close>,
  the validation error of the program, and it does so for a stipend of \<^verbatim>\<open>0.0\<close>.
\<close>

theorem validate_iff_all_truthy:
  "(validate r = Inr () \<longleftrightarrow>
      (\<forall>v \<in> {ref_id r, date r, full_name r, stipend r, destination r}.
         v \<notin> {PyNone, PyStr [], PyInt 0, PyFloat (Fin 0)}))
   \<and> (validate r \<noteq> Inr () \<longrightarrow> validate r = Inl ValueError)
   \<and> (stipend r = PyFloat (Fin 0) \<longrightarrow> validate r = Inl ValueError)"
  by (simp add: validate_def truthy_iff)

theorem validate_iff_all_truthy_witness:
  "stipend ref_zero = PyFloat (Fin 0) \<and> validate ref_zero = Inl ValueError
   \<and> validate ref_a = Inr () \<and> validate blank_ref = Inl ValueError"
proof -
  have z: "stipend ref_zero = PyFloat (Fin 0)"
    by (simp add: ref_zero_def new_ref_eq)
  with validate_iff_all_truthy [of ref_zero] have 1: "validate ref_zero = Inl ValueError"
    by blast
  have "\<forall>v \<in> {ref_id ref_a, date ref_a, full_name ref_a, stipend ref_a, destination ref_a}.
          v \<notin> {PyNone, PyStr [], PyInt 0, PyFloat (Fin 0)}"
    by (simp add: ref_a_def new_ref_eq)
  with validate_iff_all_truthy [of ref_a] have 2: "validate ref_a = Inr ()"
    by blast
  have "ref_id blank_ref = PyNone"
    by (simp add: blank_ref_def StudentReference_init_def kwargs_get_def)
  then have "\<not> (\<forall>v \<in> {ref_id blank_ref, date blank_ref, full_name blank_ref,
                       stipend blank_ref, destination blank_ref}.
               v \<notin> {PyNone, PyStr [], PyInt 0, PyFloat (Fin 0)})"
    by simp
  with validate_iff_all_truthy [of blank_ref] have 3: "validate blank_ref = Inl ValueError"
    by blast
  from z 1 2 3 show ?thesis by simp
qed

lemma setattr_initialized:
  "initialized r \<Longrightarrow> setattr r name v = Inr r' \<Longrightarrow> initialized r'"
  by (auto simp add: setattr_def object_setattr_def StudentReference_fields_def
      split: if_splits)

lemma assign_all_initialized: "initialized r \<Longrightarrow> initialized (assign_all r asg)"
proof (induction asg arbitrary: r)
  case Nil
  then show ?case by simp
next
  case (Cons a asg)
  obtain name v where a: "a = (name, v)" by (cases a)
  show ?case
  proof (cases "setattr r name v")
    case (Inl e)
    with Cons a show ?thesis by simp
  next
    case (Inr r')
    with Cons.prems have "initialized r'" by (rule_tac setattr_initialized)
    with Cons.IH Inr a show ?thesis by simp
  qed
qed

text \<open>
  C9. On a constructed reference, and on one that has since gone through any sequence
  of attribute assignments, assigning an attribute whose name is not one of the five
  fields raises \<^verbatim>\<open>AttributeError\<close> for that name.
\<close>

theorem setattr_rejects_unknown_field:
  "name \<notin> set StudentReference_fields \<longrightarrow>
     setattr (StudentReference_init kwargs) name v = Inl (AttributeError name)
     \<and> setattr (assign_all (StudentReference_init kwargs) assignments) name v
         = Inl (AttributeError name)"
proof
  assume n: "name \<notin> set StudentReference_fields"
  have i: "initialized (StudentReference_init kwargs)"
    by (simp add: StudentReference_init_def)
  then have "initialized (assign_all (StudentReference_init kwargs) assignments)"
    by (rule assign_all_initialized)
  with n i show "setattr (StudentReference_init kwargs) name v = Inl (AttributeError name)
     \<and> setattr (assign_all (StudentReference_init kwargs) assignments) name v
         = Inl (AttributeError name)"
    by (simp add: setattr_def)
qed

theorem setattr_rejects_unknown_field_witness:
  "''grade'' \<notin> set StudentReference_fields
   \<and> setattr blank_ref ''grade'' (PyInt 5) = Inl (AttributeError ''grade'')
   \<and> setattr (assign_all blank_ref [(''stipend'', PyFloat (Fin 1)), (''_initialized'', PyInt 0)])
        ''grade'' (PyInt 5) = Inl (AttributeError ''grade'')"
  using setattr_rejects_unknown_field [of "''grade''" Map.empty "PyInt 5"
      "[(''stipend'', PyFloat (Fin 1)), (''_initialized'', PyInt 0)]"]
  by (simp add: blank_ref_def StudentReference_fields_def)

section \<open>Collections\<close>

text \<open>
  C8. \<^verbatim>\<open>add\<close> of an object that is not a \<^verbatim>\<open>StudentReference\<close> raises
  \<^verbatim>\<open>TypeError\<close> and leaves the contents of the collection, so also its length, as
  they were.
\<close>

theorem add_rejects_non_record:
  "add c (Val v) = (Some TypeError, c)
   \<and> data (snd (add c (Val v))) = data c
   \<and> length (data (snd (add c (Val v)))) = length (data c)"
  by simp

text \<open>
  C10. In a non-empty collection of length \<open>n\<close> an index \<open>i\<close> with \<open>-n \<le> i < 0\<close> reads
  the reference at position \<open>n + i\<close>, index \<open>-1\<close> the last one, and \<^verbatim>\<open>IndexError\<close> is
  raised exactly for the indices outside \<open>[-n, n)\<close>.
\<close>

theorem getitem_negative_index:
  "(data c \<noteq> [] \<and> - int (length (data c)) \<le> i \<and> i < 0 \<longrightarrow>
      getitem c i = Inr (data c ! nat (int (length (data c)) + i)))
   \<and> (data c \<noteq> [] \<longrightarrow> getitem c (- 1) = Inr (last (data c)))
   \<and> (getitem c i = Inl IndexError \<longleftrightarrow>
        \<not> (- int (length (data c)) \<le> i \<and> i < int (length (data c))))"
proof (intro conjI impI)
  assume "data c \<noteq> [] \<and> - int (length (data c)) \<le> i \<and> i < 0"
  then show "getitem c i = Inr (data c ! nat (int (length (data c)) + i))"
    by (simp add: getitem_def Let_def add.commute)
next
  assume ne: "data c \<noteq> []"
  then have "nat (int (length (data c)) - 1) = length (data c) - 1"
    by (cases "data c") simp_all
  with ne show "getitem c (- 1) = Inr (last (data c))"
    by (simp add: getitem_def Let_def last_conv_nth)
next
  show "getitem c i = Inl IndexError \<longleftrightarrow>
        \<not> (- int (length (data c)) \<le> i \<and> i < int (length (data c)))"
    by (auto simp add: getitem_def Let_def)
qed

theorem getitem_negative_index_witness:
  "data three_refs \<noteq> [] \<and> - int (length (data three_refs)) \<le> - 2 \<and> (- 2 :: int) < 0
   \<and> getitem three_refs (- 2) = Inr ref_b
   \<and> getitem three_refs (- 1) = Inr ref_c
   \<and> getitem three_refs (- 4) = Inl IndexError"
  using getitem_negative_index [of three_refs "- 2"] getitem_negative_index [of three_refs "- 4"]
  by (simp add: three_refs_def)

section \<open>Filtering\<close>






section \<open>Sorting\<close>

text \<open>
  C7. \<^verbatim>\<open>sort_by\<close> with a field that is neither \<^verbatim>\<open>"name"\<close> nor \<^verbatim>\<open>"stipend"\<close> raises
  nothing and leaves the collection as it was.
\<close>

theorem sort_by_other_field_noop:
  "field \<noteq> PyStr ''name'' \<Longrightarrow> field \<noteq> PyStr ''stipend'' \<Longrightarrow> sort_by c field = Inr c"
  by (simp add: sort_by_def)

theorem sort_by_other_field_noop_witness:
  "PyStr ''date'' \<noteq> PyStr ''name'' \<and> PyStr ''date'' \<noteq> PyStr ''stipend''
   \<and> sort_by three_refs (PyStr ''date'') = Inr three_refs
   \<and> sort_by three_refs PyNone = Inr three_refs"
  using sort_by_other_field_noop [of "PyStr ''date''" three_refs]
    sort_by_other_field_noop [of PyNone three_refs]
  by simp

lemma insort_py_linorder:
  fixes f :: "'a \<Rightarrow> 'b::linorder"
  assumes "\<forall>y \<in> set ys. py_lt (key y) (key x) = Inr (f y < f x)"
  shows "insort_py key x ys = Inr (insort_key f x ys)"
  using assms by (induction ys) (auto simp add: bind_def)

lemma list_sort_linorder:
  fixes f :: "'a \<Rightarrow> 'b::linorder"
  assumes "\<forall>a \<in> set xs. \<forall>b \<in> set xs. py_lt (key a) (key b) = Inr (f a < f b)"
  shows "list_sort key xs = Inr (sort_key f xs)"
  using assms
proof (induction xs)
  case Nil
  then show ?case by simp
next
  case (Cons x xs)
  then have "list_sort key xs = Inr (sort_key f xs)" by simp
  moreover from Cons.prems
  have "\<forall>y \<in> set (sort_key f xs). py_lt (key y) (key x) = Inr (f y < f x)" by simp
  ultimately show ?case
    by (simp add: bind_def insort_py_linorder)
qed

text \<open>
  What the sort achieves on keys that \<open>f\<close> maps faithfully into a linear order: the
  result is a rearrangement, non-decreasing in the key, with equal keys left in their
  order, and sorting it again changes nothing.
\<close>

lemma list_sort_correct:
  fixes f :: "'a \<Rightarrow> 'b::linorder"
  assumes lt: "\<forall>a \<in> set xs. \<forall>b \<in> set xs. py_lt (key a) (key b) = Inr (f a < f b)"
    and le: "\<forall>a \<in> set xs. \<forall>b \<in> set xs. py_le (key a) (key b) = Inr (f a \<le> f b)"
    and eq: "\<forall>a \<in> set xs. \<forall>b \<in> set xs. f a = f b \<longleftrightarrow> key a = key b"
  shows "\<exists>ys. list_sort key xs = Inr ys \<and> mset ys = mset xs \<and> nondecreasing key ys
           \<and> (\<forall>k. filter (\<lambda>r. key r = k) ys = filter (\<lambda>r. key r = k) xs)
           \<and> list_sort key ys = Inr ys"
proof -
  let ?ys = "sort_key f xs"
  have s: "list_sort key xs = Inr ?ys"
    using lt by (rule list_sort_linorder)
  have m: "mset ?ys = mset xs" by simp
  have "sorted_wrt (\<lambda>a b. f a \<le> f b) ?ys"
    using sorted_sort_key [of f xs] by (simp add: sorted_map)
  then have n: "nondecreasing key ?ys"
    unfolding nondecreasing_def
    by (rule sorted_wrt_mono_rel [rotated]) (simp add: le)
  have st: "filter (\<lambda>r. key r = k) ?ys = filter (\<lambda>r. key r = k) xs" for k
  proof (cases "\<exists>r \<in> set xs. key r = k")
    case True
    then obtain r0 where r0: "r0 \<in> set xs" "key r0 = k" by blast
    with eq have c: "\<forall>r \<in> set xs. (key r = k) = (f r = f r0)" by auto
    have "filter (\<lambda>r. key r = k) ?ys = filter (\<lambda>r. f r = f r0) ?ys"
      by (rule filter_cong) (simp_all add: c)
    also have "\<dots> = filter (\<lambda>r. f r = f r0) xs" by (rule sort_key_stable)
    also have "\<dots> = filter (\<lambda>r. key r = k) xs"
      by (rule filter_cong) (simp_all add: c)
    finally show ?thesis .
  next
    case False
    then have "filter (\<lambda>r. key r = k) ?ys = []" "filter (\<lambda>r. key r = k) xs = []"
      by (simp_all add: filter_empty_conv)
    then show ?thesis by simp
  qed
  have "list_sort key ?ys = Inr (sort_key f ?ys)"
    by (rule list_sort_linorder) (simp add: lt)
  then have i: "list_sort key ?ys = Inr ?ys"
    by (simp add: sort_key_id_if_sorted)
  from s m n st i show ?thesis by blast
qed

lemma str_key_lt: "is_str a \<Longrightarrow> is_str b \<Longrightarrow> py_lt a b = Inr (str_key a < str_key b)"
  by (cases a; cases b) simp_all

lemma str_key_le: "is_str a \<Longrightarrow> is_str b \<Longrightarrow> py_le a b = Inr (str_key a \<le> str_key b)"
  by (cases a; cases b) simp_all

lemma str_key_eq: "is_str a \<Longrightarrow> is_str b \<Longrightarrow> str_key a = str_key b \<longleftrightarrow> a = b"
  by (cases a; cases b) simp_all

lemma flt_key_lt:
  "is_ordered_float a \<Longrightarrow> is_ordered_float b \<Longrightarrow> py_lt a b = Inr (flt_key a < flt_key b)"
proof (cases a; cases b)
  fix x y assume "is_ordered_float a" "is_ordered_float b" "a = PyFloat x" "b = PyFloat y"
  then show ?thesis by (cases x; cases y) (simp_all add: less_prod_def)
qed simp_all

lemma flt_key_le:
  "is_ordered_float a \<Longrightarrow> is_ordered_float b \<Longrightarrow> py_le a b = Inr (flt_key a \<le> flt_key b)"
proof (cases a; cases b)
  fix x y assume "is_ordered_float a" "is_ordered_float b" "a = PyFloat x" "b = PyFloat y"
  then show ?thesis by (cases x; cases y) (auto simp add: less_eq_prod_def)
qed simp_all

lemma flt_key_eq:
  "is_ordered_float a \<Longrightarrow> is_ordered_float b \<Longrightarrow> flt_key a = flt_key b \<longleftrightarrow> a = b"
proof (cases a; cases b)
  fix x y assume "is_ordered_float a" "is_ordered_float b" "a = PyFloat x" "b = PyFloat y"
  then show ?thesis by (cases x; cases y) simp_all
qed simp_all

lemma list_sort_strings:
  assumes "\<forall>r \<in> set xs. is_str (key r)"
  shows "\<exists>ys. list_sort key xs = Inr ys \<and> mset ys = mset xs \<and> nondecreasing key ys
           \<and> (\<forall>k. filter (\<lambda>r. key r = k) ys = filter (\<lambda>r. key r = k) xs)
           \<and> list_sort key ys = Inr ys"
  using assms
  by (intro list_sort_correct [where f = "\<lambda>r. str_key (key r)"])
    (simp_all add: str_key_lt str_key_le str_key_eq)

lemma list_sort_floats:
  assumes "\<forall>r \<in> set xs. is_ordered_float (key r)"
  shows "\<exists>ys. list_sort key xs = Inr ys \<and> mset ys = mset xs \<and> nondecreasing key ys
           \<and> (\<forall>k. filter (\<lambda>r. key r = k) ys = filter (\<lambda>r. key r = k) xs)
           \<and> list_sort key ys = Inr ys"
  using assms
  by (intro list_sort_correct [where f = "\<lambda>r. flt_key (key r)"])
    (simp_all add: flt_key_lt flt_key_le flt_key_eq)

lemma py_le_nan_right: "py_le a (PyFloat NaN) \<noteq> Inr True"
proof (cases a)
  case (PyFloat x)
  then show ?thesis by (cases x) simp_all
qed simp_all

lemma py_le_nan_left: "py_le (PyFloat NaN) b \<noteq> Inr True"
  by (cases b) simp_all

text \<open>
  With a NaN key among two or more elements no arrangement is non-decreasing, whatever
  the sorting algorithm.
\<close>

lemma nan_never_nondecreasing:
  assumes "r \<in> set ys" "key r = PyFloat NaN" "2 \<le> length ys"
  shows "\<not> nondecreasing key ys"
proof
  assume "nondecreasing key ys"
  then have s: "\<And>i j. i < j \<Longrightarrow> j < length ys \<Longrightarrow> py_le (key (ys ! i)) (key (ys ! j)) = Inr True"
    by (simp add: nondecreasing_def sorted_wrt_iff_nth_less)
  from assms(1) obtain i where i: "i < length ys" "ys ! i = r"
    by (auto simp add: in_set_conv_nth)
  show False
  proof (cases "i = 0")
    case True
    with assms(3) have "i < 1" "1 < length ys" by simp_all
    with s [of i 1] i assms(2) show False by (simp add: py_le_nan_left)
  next
    case False
    then have "0 < i" by simp
    with s [of 0 i] i assms(2) show False by (simp add: py_le_nan_right)
  qed
qed

text \<open>
  C6, as the code has it. On a collection whose names are all strings, sorting by
  \<^verbatim>\<open>"name"\<close> rearranges the stored references so that the names are non-decreasing,
  references with the same name keeping their order, and sorting again changes nothing;
  likewise for \<^verbatim>\<open>"stipend"\<close> on a collection whose stipends are all floats other than
  NaN.
\<close>

theorem sort_by_sorts:
  "(list_all (\<lambda>r. is_str (full_name r)) (data c) \<longrightarrow>
      (\<exists>c'. sort_by c (PyStr ''name'') = Inr c'
         \<and> mset (data c') = mset (data c)
         \<and> nondecreasing full_name (data c')
         \<and> (\<forall>k. filter (\<lambda>r. full_name r = k) (data c') = filter (\<lambda>r. full_name r = k) (data c))
         \<and> sort_by c' (PyStr ''name'') = Inr c'))
   \<and> (list_all (\<lambda>r. is_ordered_float (stipend r)) (data c) \<longrightarrow>
      (\<exists>c'. sort_by c (PyStr ''stipend'') = Inr c'
         \<and> mset (data c') = mset (data c)
         \<and> nondecreasing stipend (data c')
         \<and> (\<forall>k. filter (\<lambda>r. stipend r = k) (data c') = filter (\<lambda>r. stipend r = k) (data c))
         \<and> sort_by c' (PyStr ''stipend'') = Inr c'))"
proof (intro conjI impI)
  assume "list_all (\<lambda>r. is_str (full_name r)) (data c)"
  then have "\<forall>r \<in> set (data c). is_str (full_name r)" by (simp add: list_all_iff)
  then obtain ys where ys: "list_sort full_name (data c) = Inr ys" "mset ys = mset (data c)"
      "nondecreasing full_name ys"
      "\<forall>k. filter (\<lambda>r. full_name r = k) ys = filter (\<lambda>r. full_name r = k) (data c)"
      "list_sort full_name ys = Inr ys"
    using list_sort_strings [of "data c" full_name] by blast
  let ?c = "c\<lparr>data := ys\<rparr>"
  from ys have "sort_by c (PyStr ''name'') = Inr ?c \<and> mset (data ?c) = mset (data c)
      \<and> nondecreasing full_name (data ?c)
      \<and> (\<forall>k. filter (\<lambda>r. full_name r = k) (data ?c) = filter (\<lambda>r. full_name r = k) (data c))
      \<and> sort_by ?c (PyStr ''name'') = Inr ?c"
    by (simp add: sort_by_def bind_def)
  then show "\<exists>c'. sort_by c (PyStr ''name'') = Inr c' \<and> mset (data c') = mset (data c)
      \<and> nondecreasing full_name (data c')
      \<and> (\<forall>k. filter (\<lambda>r. full_name r = k) (data c') = filter (\<lambda>r. full_name r = k) (data c))
      \<and> sort_by c' (PyStr ''name'') = Inr c'"
    by (rule exI)
next
  assume "list_all (\<lambda>r. is_ordered_float (stipend r)) (data c)"
  then have "\<forall>r \<in> set (data c). is_ordered_float (stipend r)" by (simp add: list_all_iff)
  then obtain ys where ys: "list_sort stipend (data c) = Inr ys" "mset ys = mset (data c)"
      "nondecreasing stipend ys"
      "\<forall>k. filter (\<lambda>r. stipend r = k) ys = filter (\<lambda>r. stipend r = k) (data c)"
      "list_sort stipend ys = Inr ys"
    using list_sort_floats [of "data c" stipend] by blast
  let ?c = "c\<lparr>data := ys\<rparr>"
  from ys have "sort_by c (PyStr ''stipend'') = Inr ?c \<and> mset (data ?c) = mset (data c)
      \<and> nondecreasing stipend (data ?c)
      \<and> (\<forall>k. filter (\<lambda>r. stipend r = k) (data ?c) = filter (\<lambda>r. stipend r = k) (data c))
      \<and> sort_by ?c (PyStr ''stipend'') = Inr ?c"
    by (simp add: sort_by_def bind_def)
  then show "\<exists>c'. sort_by c (PyStr ''stipend'') = Inr c' \<and> mset (data c') = mset (data c)
      \<and> nondecreasing stipend (data c')
      \<and> (\<forall>k. filter (\<lambda>r. stipend r = k) (data c') = filter (\<lambda>r. stipend r = k) (data c))
      \<and> sort_by c' (PyStr ''stipend'') = Inr c'"
    by (rule exI)
qed

lemma sort_three_refs_by_name:
  "sort_by three_refs (PyStr ''name'') = Inr \<lparr> data = [ref_b, ref_a, ref_c] \<rparr>"
  by (simp add: sort_by_def bind_def three_refs_def ref_a_def ref_b_def ref_c_def new_ref_eq)

lemma sort_three_refs_by_stipend:
  "sort_by three_refs (PyStr ''stipend'') = Inr three_refs"
  by (simp add: sort_by_def bind_def three_refs_def ref_a_def ref_b_def ref_c_def new_ref_eq)

theorem sort_by_sorts_witness:
  "list_all (\<lambda>r. is_str (full_name r)) (data three_refs)
   \<and> list_all (\<lambda>r. is_ordered_float (stipend r)) (data three_refs)
   \<and> nondecreasing full_name [ref_b, ref_a, ref_c]
   \<and> nondecreasing stipend (data three_refs)"
proof -
  have n: "list_all (\<lambda>r. is_str (full_name r)) (data three_refs)"
    by (simp add: three_refs_def ref_a_def ref_b_def ref_c_def new_ref_eq)
  have s: "list_all (\<lambda>r. is_ordered_float (stipend r)) (data three_refs)"
    by (simp add: three_refs_def ref_a_def ref_b_def ref_c_def new_ref_eq)
  from n sort_by_sorts [of three_refs] have "nondecreasing full_name [ref_b, ref_a, ref_c]"
    by (auto simp add: sort_three_refs_by_name)
  moreover from s sort_by_sorts [of three_refs] have "nondecreasing stipend (data three_refs)"
    by (auto simp add: sort_three_refs_by_stipend)
  ultimately show ?thesis using n s by simp
qed

theorem sort_by_nan_counterexample:
  "sort_by nan_refs (PyStr ''stipend'') = Inr nan_refs
   \<and> \<not> nondecreasing stipend (data nan_refs)"
  by (simp add: sort_by_def bind_def nondecreasing_def nan_refs_def ref_nan_def ref_a_def
      new_ref_eq)

lemma nan_refs_never_sorted:
  "mset ys = mset (data nan_refs) \<Longrightarrow> \<not> nondecreasing stipend ys"
proof (rule nan_never_nondecreasing [of ref_nan])
  assume m: "mset ys = mset (data nan_refs)"
  then have "set ys = set (data nan_refs)" by (rule mset_eq_setD)
  then show "ref_nan \<in> set ys" by (simp add: nan_refs_def)
  show "stipend ref_nan = PyFloat NaN" by (simp add: ref_nan_def new_ref_eq)
  from m have "length ys = length (data nan_refs)" by (rule mset_eq_length)
  then show "2 \<le> length ys" by (simp add: nan_refs_def)
qed

section \<open>Loading\<close>

lemma universal_newlines_id: "CHR 0x0D \<notin> set s \<Longrightarrow> universal_newlines s = s"
  by (induction s rule: universal_newlines.induct) auto

lemma reader_next_plain:
  assumes "\<forall>c \<in> set cells. CHR 0x0D \<notin> set c \<and> py_len c \<le> field_limit"
  shows "reader_next (Row cells) = Inr cells"
proof -
  from assms have "map universal_newlines cells = cells"
    by (simp add: universal_newlines_id map_idI)
  with assms show ?thesis by (auto simp add: not_less)
qed

lemma fieldnames_read: "reader_next (Row fieldnames) = Inr fieldnames"
  by (rule reader_next_plain)
    (simp add: fieldnames_def key_no_def key_date_def key_name_def key_stipend_def
      key_destination_def py_len_def field_limit_def)

lemma reader_next_empty: "reader_next item = Inr [] \<longleftrightarrow> item = Row []"
proof (cases item)
  case (Row cells)
  then show ?thesis by (cases cells) (auto split: if_splits)
qed simp

lemma dict_to_list_to_dict:
  "dict_to_list fieldnames (to_dict r)
     = Inr [ref_id r, date r, full_name r, stipend r, destination r]"
  by (simp add: dict_to_list_def to_dict_def fieldnames_def key_no_def key_date_def
      key_name_def key_stipend_def key_destination_def)

lemma write_rows_eq: "write_rows lib xs = map (saved_cells lib) xs"
  by (induction xs) (simp_all add: dict_to_list_to_dict saved_cells_def)

lemma make_row_full:
  "make_row fieldnames [a, b, c, d, e] =
     [key_no \<mapsto> Some a, key_date \<mapsto> Some b, key_name \<mapsto> Some c, key_stipend \<mapsto> Some d,
      key_destination \<mapsto> Some e]"
  by (simp add: make_row_def fieldnames_def)

lemma make_row_lookup:
  "make_row fieldnames [a, b, c, d, e] key_no = Some (Some a)"
  "make_row fieldnames [a, b, c, d, e] key_date = Some (Some b)"
  "make_row fieldnames [a, b, c, d, e] key_name = Some (Some c)"
  "make_row fieldnames [a, b, c, d, e] key_stipend = Some (Some d)"
  "make_row fieldnames [a, b, c, d, e] key_destination = Some (Some e)"
  by (simp_all add: make_row_full)
    (simp_all add: key_no_def key_date_def key_name_def key_stipend_def key_destination_def)

lemma row_to_ref_full:
  "row_to_ref lib (make_row fieldnames [a, b, c, d, e]) =
     (case float_of_str lib d of
        None \<Rightarrow> Inl ValueError
      | Some f \<Rightarrow> Inr \<lparr> ref_id = PyStr a, date = PyStr b, full_name = PyStr c,
                       stipend = PyFloat f, destination = PyStr e, initialized = True,
                       other_attrs = [] \<rparr>)"
  by (simp add: make_row_lookup row_to_ref_def dict_getitem_def bind_def py_float_def
      cell_val_def StudentReference_init_def kwargs_get_def split: option.splits)

lemma load_row_result:
  assumes "load_row lib row c = Inr c'"
  shows "\<exists>ref. validate ref = Inr () \<and> c' = c\<lparr>data := data c @ [ref]\<rparr>"
proof -
  from assms obtain ref where r: "row_to_ref lib row = Inr ref"
    by (cases "row_to_ref lib row") (simp_all add: load_row_def bind_def)
  with assms have v: "validate ref = Inr ()"
    by (cases "validate ref") (simp_all add: load_row_def bind_def)
  with assms r have "c' = c\<lparr>data := data c @ [ref]\<rparr>"
    by (simp add: load_row_def bind_def)
  with v show ?thesis by blast
qed

text \<open>
  A load that returns a collection has appended one valid reference for each row that
  the reader delivered, and the reader raised nothing: no row was skipped.
\<close>

lemma load_rows_all_loaded:
  assumes "load_rows lib rows c = Inr (Some c')"
  shows "\<exists>refs. data c' = data c @ refs \<and> length refs = length rows
           \<and> (\<forall>r \<in> set refs. validate r = Inr ())"
  using assms
proof (induction rows arbitrary: c)
  case Nil
  then show ?case by simp
next
  case (Cons ev rows)
  show ?case
  proof (cases ev)
    case (Inl e)
    with Cons.prems show ?thesis by simp
  next
    case (Inr row)
    show ?thesis
    proof (cases "load_row lib row c")
      case (Inl e)
      with Cons.prems \<open>ev = Inr row\<close> show ?thesis by (simp split: if_splits)
    next
      case c1: (Inr c1)
      then obtain ref where ref: "validate ref = Inr ()" "c1 = c\<lparr>data := data c @ [ref]\<rparr>"
        using load_row_result by blast
      from Cons.prems c1 \<open>ev = Inr row\<close> have "load_rows lib rows c1 = Inr (Some c')" by simp
      then obtain refs where
        "data c' = data c1 @ refs" "length refs = length rows"
        "\<forall>r \<in> set refs. validate r = Inr ()"
        using Cons.IH by blast
      with ref have "data c' = data c @ (ref # refs) \<and> length (ref # refs) = length (ev # rows)
          \<and> (\<forall>r \<in> set (ref # refs). validate r = Inr ())"
        by simp
      then show ?thesis by blast
    qed
  qed
qed

lemma from_csv_Some:
  assumes "from_csv lib fs filename = Inr (Some c)"
  shows "\<exists>items. contents fs filename = Some items
           \<and> load_rows lib (DictReader items) ReferenceCollection_init = Inr (Some c)"
proof (cases "open_read fs filename")
  case (Inl e)
  with assms show ?thesis by (simp add: from_csv_def bind_def split: if_splits)
next
  case (Inr items)
  then have "contents fs filename = Some items"
    by (simp add: open_read_def split: if_splits option.splits)
  with assms Inr show ?thesis
    by (simp add: from_csv_def bind_def split: sum.splits if_splits)
qed

lemma from_csv_valid:
  assumes "from_csv lib fs filename = Inr (Some c)"
  shows "\<forall>r \<in> set (data c). validate r = Inr ()"
proof -
  from assms obtain items where
    "load_rows lib (DictReader items) ReferenceCollection_init = Inr (Some c)"
    using from_csv_Some by blast
  then obtain refs where "data c = data ReferenceCollection_init @ refs"
      "\<forall>r \<in> set refs. validate r = Inr ()"
    using load_rows_all_loaded by blast
  then show ?thesis by (simp add: ReferenceCollection_init_def)
qed

text \<open>
  The collection returned has one reference for each data row that is not blank: a load
  never returns a part of the file.
\<close>

lemma load_row_length:
  "load_row lib row c = Inr c1 \<Longrightarrow> length (data c1) = Suc (length (data c))"
proof -
  assume "load_row lib row c = Inr c1"
  then obtain ref where "c1 = c\<lparr>data := data c @ [ref]\<rparr>"
    using load_row_result by blast
  then show ?thesis by simp
qed

lemma dict_rows_blank: "dict_rows names (Row [] # items) = dict_rows names items"
  by simp

lemma dict_rows_row:
  "reader_next item = Inr row \<Longrightarrow> row \<noteq> [] \<Longrightarrow>
   dict_rows names (item # items) = Inr (make_row names row) # dict_rows names items"
  by simp

lemma dict_rows_error:
  "reader_next item = Inl e \<Longrightarrow> dict_rows names (item # items) = [Inl e]"
  by simp

lemma load_dict_rows_length:
  assumes "load_rows lib (dict_rows names items) c = Inr (Some c')"
  shows "length (data c') = length (data c) + length (filter (\<lambda>i. i \<noteq> Row []) items)"
  using assms
proof (induction items arbitrary: c)
  case Nil
  then show ?case by simp
next
  case (Cons item items)
  show ?case
  proof (cases "reader_next item")
    case (Inl e)
    then have "dict_rows names (item # items) = [Inl e]" by (rule dict_rows_error)
    with Cons.prems show ?thesis by simp
  next
    case (Inr row)
    show ?thesis
    proof (cases "row = []")
      case True
      with Inr have b: "item = Row []" by (simp only: reader_next_empty)
      with Cons.prems have "load_rows lib (dict_rows names items) c = Inr (Some c')"
        by (simp only: dict_rows_blank)
      then have "length (data c') = length (data c) + length (filter (\<lambda>i. i \<noteq> Row []) items)"
        by (rule Cons.IH)
      with b show ?thesis by simp
    next
      case False
      have ne: "item \<noteq> Row []"
      proof
        assume "item = Row []"
        then have "reader_next item = Inr []" by (simp only: reader_next_empty)
        with Inr False show False by simp
      qed
      from Inr False
      have d: "dict_rows names (item # items) = Inr (make_row names row) # dict_rows names items"
        by (rule dict_rows_row)
      from Cons.prems have l: "load_rows lib (Inr (make_row names row) # dict_rows names items) c
          = Inr (Some c')"
        by (simp only: d)
      then obtain c1 where c1: "load_row lib (make_row names row) c = Inr c1"
        by (cases "load_row lib (make_row names row) c") (simp_all split: if_splits)
      with l have "load_rows lib (dict_rows names items) c1 = Inr (Some c')" by simp
      then have "length (data c') = length (data c1) + length (filter (\<lambda>i. i \<noteq> Row []) items)"
        by (rule Cons.IH)
      moreover from c1 have "length (data c1) = Suc (length (data c))" by (rule load_row_length)
      ultimately show ?thesis using ne by simp
    qed
  qed
qed

lemma from_csv_no_partial:
  assumes "from_csv lib fs filename = Inr (Some c)"
  shows "\<exists>items. contents fs filename = Some items
           \<and> length (data c) = length (filter (\<lambda>i. i \<noteq> Row []) (tl items))"
proof -
  from assms obtain items where f: "contents fs filename = Some items"
    and l: "load_rows lib (DictReader items) ReferenceCollection_init = Inr (Some c)"
    using from_csv_Some by blast
  have "length (data c) = length (filter (\<lambda>i. i \<noteq> Row []) (tl items))"
  proof (cases items)
    case Nil
    with l show ?thesis by (auto simp add: DictReader_def ReferenceCollection_init_def)
  next
    case (Cons item rest)
    show ?thesis
    proof (cases "reader_next item")
      case (Inl e)
      with l Cons show ?thesis by (simp add: DictReader_def)
    next
      case (Inr names)
      with l Cons have "load_rows lib (dict_rows names rest) ReferenceCollection_init
          = Inr (Some c)"
        by (simp add: DictReader_def)
      then show ?thesis
        using Cons by (simp add: load_dict_rows_length ReferenceCollection_init_def)
    qed
  qed
  with f show ?thesis by blast
qed

text \<open>The failures that \<^verbatim>\<open>from_csv\<close> does turn into the return of \<^verbatim>\<open>None\<close>.\<close>

lemma load_rows_abort:
  "load_row lib row c = Inl ValueError \<or> load_row lib row c = Inl KeyError \<Longrightarrow>
   load_rows lib (Inr row # rows) c = Inr None"
  by auto

lemma load_row_bad_stipend:
  "float_of_str lib d = None \<Longrightarrow>
   load_row lib (make_row fieldnames [a, b, n, d, w]) c = Inl ValueError"
  by (simp add: load_row_def row_to_ref_full bind_def)

lemma load_row_invalid:
  "row_to_ref lib row = Inr ref \<Longrightarrow> validate ref = Inl ValueError \<Longrightarrow>
   load_row lib row c = Inl ValueError"
  by (simp add: load_row_def bind_def)

lemma load_row_missing_column:
  "row key_no = None \<Longrightarrow> load_row lib row c = Inl KeyError"
  by (simp add: load_row_def row_to_ref_def dict_getitem_def bind_def)

lemma from_csv_missing_file:
  "\<not> read_denied fs filename \<Longrightarrow> contents fs filename = None \<Longrightarrow>
   from_csv lib fs filename = Inr None"
  by (simp add: from_csv_def open_read_def bind_def)

text \<open>
  C1, as the code has it. \<^verbatim>\<open>add\<close> raises \<^verbatim>\<open>TypeError\<close> for an object that is not a
  \<^verbatim>\<open>StudentReference\<close> and appends any \<^verbatim>\<open>StudentReference\<close>, valid or not: it does
  not validate. Validity comes from the caller: every element of a collection that
  \<^verbatim>\<open>from_csv\<close> returns is valid, because each row is validated before it is added.
\<close>

theorem add_checks_type_only:
  "add c (Val v) = (Some TypeError, c)
   \<and> add c (Ref r) = (None, c\<lparr>data := data c @ [r]\<rparr>)
   \<and> (from_csv lib fs filename = Inr (Some c') \<longrightarrow> list_all (\<lambda>r. validate r = Inr ()) (data c'))"
  by (simp add: from_csv_valid list_all_iff)

lemma load_three_rows: "from_csv demo_lib three_rows_fs ''data.csv'' = Inr (Some three_refs)"
proof -
  have r: "reader_next (Row [a, b, c, d, e]) = Inr [a, b, c, d, e]"
    if "\<forall>x \<in> set [a, b, c, d, e]. CHR 0x0D \<notin> set x \<and> py_len x \<le> field_limit" for a b c d e
    using that by (rule reader_next_plain)
  have 1: "reader_next (Row [''1'', ''2024-01-10'', ''Petrov'', ''900.0'', ''bank''])
      = Inr [''1'', ''2024-01-10'', ''Petrov'', ''900.0'', ''bank'']"
    by (rule r) (simp add: py_len_def field_limit_def)
  have 2: "reader_next (Row [''2'', ''2024-01-11'', ''Ivanov'', ''1500.0'', ''embassy''])
      = Inr [''2'', ''2024-01-11'', ''Ivanov'', ''1500.0'', ''embassy'']"
    by (rule r) (simp add: py_len_def field_limit_def)
  have 3: "reader_next (Row [''3'', ''2024-01-12'', ''Sidorov'', ''2000.0'', ''bank''])
      = Inr [''3'', ''2024-01-12'', ''Sidorov'', ''2000.0'', ''bank'']"
    by (rule r) (simp add: py_len_def field_limit_def)
  have d: "DictReader
       [Row fieldnames,
        Row [''1'', ''2024-01-10'', ''Petrov'', ''900.0'', ''bank''],
        Row [''2'', ''2024-01-11'', ''Ivanov'', ''1500.0'', ''embassy''],
        Row [''3'', ''2024-01-12'', ''Sidorov'', ''2000.0'', ''bank'']]
      = [Inr (make_row fieldnames [''1'', ''2024-01-10'', ''Petrov'', ''900.0'', ''bank'']),
         Inr (make_row fieldnames [''2'', ''2024-01-11'', ''Ivanov'', ''1500.0'', ''embassy'']),
         Inr (make_row fieldnames [''3'', ''2024-01-12'', ''Sidorov'', ''2000.0'', ''bank''])]"
    by (simp add: DictReader_def fieldnames_read 1 2 3 del: reader_next.simps)
  have l: "load_rows demo_lib
       [Inr (make_row fieldnames [''1'', ''2024-01-10'', ''Petrov'', ''900.0'', ''bank'']),
        Inr (make_row fieldnames [''2'', ''2024-01-11'', ''Ivanov'', ''1500.0'', ''embassy'']),
        Inr (make_row fieldnames [''3'', ''2024-01-12'', ''Sidorov'', ''2000.0'', ''bank''])]
       ReferenceCollection_init
      = Inr (Some three_refs)"
    by (simp add: load_row_def row_to_ref_full bind_def demo_lib_def validate_def
        ReferenceCollection_init_def three_refs_def ref_a_def ref_b_def ref_c_def new_ref_eq)
  have o: "open_read three_rows_fs ''data.csv'' = Inr
       [Row fieldnames,
        Row [''1'', ''2024-01-10'', ''Petrov'', ''900.0'', ''bank''],
        Row [''2'', ''2024-01-11'', ''Ivanov'', ''1500.0'', ''embassy''],
        Row [''3'', ''2024-01-12'', ''Sidorov'', ''2000.0'', ''bank'']]"
    by (simp add: open_read_def three_rows_fs_def plain_fs_def)
  show ?thesis
    by (simp only: from_csv_def o bind_def sum.case d l)
qed

theorem add_checks_type_only_witness:
  "from_csv demo_lib three_rows_fs ''data.csv'' = Inr (Some three_refs)
   \<and> list_all (\<lambda>r. validate r = Inr ()) (data three_refs)
   \<and> length (data three_refs) = 3"
  using add_checks_type_only [of ReferenceCollection_init PyNone blank_ref demo_lib three_rows_fs
      "''data.csv''" three_refs] load_three_rows
  by (simp add: three_refs_def)

theorem add_accepts_invalid_counterexample:
  "validate blank_ref = Inl ValueError
   \<and> add ReferenceCollection_init (Ref blank_ref) = (None, \<lparr> data = [blank_ref] \<rparr>)"
  by (simp add: validate_def blank_ref_def StudentReference_init_def kwargs_get_def
      ReferenceCollection_init_def)

text \<open>
  C3. A data row that stops before the stipend column makes \<^verbatim>\<open>from_csv\<close> raise
  \<^verbatim>\<open>TypeError\<close>: \<^verbatim>\<open>DictReader\<close> fills the missing cells with \<^verbatim>\<open>None\<close>, \<^verbatim>\<open>float(None)\<close>
  raises, and neither \<^verbatim>\<open>except\<close> clause catches it.
\<close>

theorem from_csv_short_row_raises:
  "from_csv lib short_row_fs ''data.csv'' = Inl TypeError"
proof -
  have "reader_next (Row [''1'', ''2024-01-10'']) = Inr [''1'', ''2024-01-10'']"
    by (rule reader_next_plain) (simp add: py_len_def field_limit_def)
  then have d: "DictReader [Row fieldnames, Row [''1'', ''2024-01-10'']]
      = [Inr (make_row fieldnames [''1'', ''2024-01-10''])]"
    by (simp add: DictReader_def fieldnames_read del: reader_next.simps)
  have "row_to_ref lib (make_row fieldnames [''1'', ''2024-01-10'']) = Inl TypeError"
    by (simp add: make_row_def fieldnames_def row_to_ref_def dict_getitem_def bind_def
        py_float_def key_no_def key_date_def key_name_def key_stipend_def key_destination_def)
  then have "load_row lib (make_row fieldnames [''1'', ''2024-01-10'']) ReferenceCollection_init
      = Inl TypeError"
    by (simp add: load_row_def bind_def)
  then have l: "load_rows lib [Inr (make_row fieldnames [''1'', ''2024-01-10''])]
      ReferenceCollection_init = Inl TypeError"
    by simp
  have o: "open_read short_row_fs ''data.csv''
      = Inr [Row fieldnames, Row [''1'', ''2024-01-10'']]"
    by (simp add: open_read_def short_row_fs_def plain_fs_def)
  show ?thesis
    by (simp add: from_csv_def o bind_def d l del: load_rows.simps)
qed

section \<open>Saving and loading again\<close>

lemma text_record_valid: "text_record r \<Longrightarrow> validate r = Inr ()"
  unfolding text_record_def validate_def
  by (cases "ref_id r"; cases "date r"; cases "full_name r"; cases "destination r";
      cases "stipend r") simp_all

lemma saved_cells_text:
  assumes "text_record r" "reads_back lib r"
  obtains a b n w f where
    "ref_id r = PyStr a" "date r = PyStr b" "full_name r = PyStr n" "destination r = PyStr w"
    "stipend r = PyFloat f" "f \<noteq> Fin 0" "a \<noteq> []" "b \<noteq> []" "n \<noteq> []" "w \<noteq> []"
    "float_of_str lib (repr_float lib f) = Some f"
    "saved_cells lib r = [a, b, n, repr_float lib f, w]"
    "\<forall>c \<in> set [a, b, n, repr_float lib f, w]. CHR 0x0D \<notin> set c \<and> py_len c \<le> field_limit"
proof -
  from assms(1) obtain a b n w f where
    r: "ref_id r = PyStr a" "date r = PyStr b" "full_name r = PyStr n" "destination r = PyStr w"
      "stipend r = PyFloat f"
    and t: "plain_text (PyStr a)" "plain_text (PyStr b)" "plain_text (PyStr n)"
      "plain_text (PyStr w)" "f \<noteq> Fin 0"
    unfolding text_record_def
    by (cases "ref_id r"; cases "date r"; cases "full_name r"; cases "destination r";
        cases "stipend r") simp_all
  from assms(2) r have f: "CHR 0x0D \<notin> set (repr_float lib f)"
      "py_len (repr_float lib f) \<le> field_limit"
      "float_of_str lib (repr_float lib f) = Some f"
    by (simp_all add: reads_back_def)
  from r have s: "saved_cells lib r = [a, b, n, repr_float lib f, w]"
    by (simp add: saved_cells_def)
  from t f have "\<forall>c \<in> set [a, b, n, repr_float lib f, w].
      CHR 0x0D \<notin> set c \<and> py_len c \<le> field_limit"
    by simp
  with r t f s that show thesis by simp
qed

text \<open>The row written for \<open>r\<close> is read as it was written.\<close>

lemma saved_cells_read:
  assumes "text_record r" "reads_back lib r"
  shows "reader_next (Row (saved_cells lib r)) = Inr (saved_cells lib r)"
    and "saved_cells lib r \<noteq> []"
proof -
  from assms obtain a b n w f where
    s: "saved_cells lib r = [a, b, n, repr_float lib f, w]"
    and p: "\<forall>c \<in> set [a, b, n, repr_float lib f, w]. CHR 0x0D \<notin> set c \<and> py_len c \<le> field_limit"
    by (rule saved_cells_text)
  from p have "reader_next (Row [a, b, n, repr_float lib f, w]) = Inr [a, b, n, repr_float lib f, w]"
    by (rule reader_next_plain)
  with s show "reader_next (Row (saved_cells lib r)) = Inr (saved_cells lib r)" by simp
  from s show "saved_cells lib r \<noteq> []" by simp
qed

text \<open>The reference that \<^verbatim>\<open>from_csv\<close> builds from that row.\<close>

lemma load_saved_row:
  assumes "text_record r" "reads_back lib r"
  shows "load_row lib (make_row fieldnames (saved_cells lib r)) c
         = Inr (c\<lparr>data := data c @ [rebuilt r]\<rparr>)"
proof -
  from assms obtain a b n w f where
    r: "ref_id r = PyStr a" "date r = PyStr b" "full_name r = PyStr n" "destination r = PyStr w"
      "stipend r = PyFloat f"
    and t: "f \<noteq> Fin 0" "a \<noteq> []" "b \<noteq> []" "n \<noteq> []" "w \<noteq> []"
    and f: "float_of_str lib (repr_float lib f) = Some f"
    and s: "saved_cells lib r = [a, b, n, repr_float lib f, w]"
    by (rule saved_cells_text)
  have eq: "rebuilt r =
      \<lparr> ref_id = PyStr a, date = PyStr b, full_name = PyStr n, stipend = PyFloat f,
        destination = PyStr w, initialized = True, other_attrs = [] \<rparr>"
    using r by (cases r) (simp add: rebuilt_def)
  from t f show ?thesis
    by (simp add: s row_to_ref_full load_row_def bind_def validate_def eq)
qed

lemma dict_rows_saved:
  assumes "\<forall>r \<in> set xs. text_record r \<and> reads_back lib r"
  shows "dict_rows fieldnames (map Row (map (saved_cells lib) xs))
         = map (\<lambda>r. Inr (make_row fieldnames (saved_cells lib r))) xs"
  using assms
proof (induction xs)
  case Nil
  then show ?case by simp
next
  case (Cons x xs)
  then have x: "text_record x" "reads_back lib x" by simp_all
  then have "reader_next (Row (saved_cells lib x)) = Inr (saved_cells lib x)"
      "saved_cells lib x \<noteq> []"
    by (rule saved_cells_read)+
  then have "dict_rows fieldnames (Row (saved_cells lib x) # map Row (map (saved_cells lib) xs))
      = Inr (make_row fieldnames (saved_cells lib x))
          # dict_rows fieldnames (map Row (map (saved_cells lib) xs))"
    by (rule dict_rows_row)
  with Cons show ?case by simp
qed

lemma load_saved_rows:
  assumes "\<forall>r \<in> set xs. text_record r \<and> reads_back lib r"
  shows "load_rows lib (map (\<lambda>r. Inr (make_row fieldnames (saved_cells lib r))) xs) c
         = Inr (Some (c\<lparr>data := data c @ map rebuilt xs\<rparr>))"
  using assms
proof (induction xs arbitrary: c)
  case Nil
  then show ?case by simp
next
  case (Cons x xs)
  then have "load_row lib (make_row fieldnames (saved_cells lib x)) c
      = Inr (c\<lparr>data := data c @ [rebuilt x]\<rparr>)"
    by (simp add: load_saved_row)
  moreover from Cons
  have "load_rows lib (map (\<lambda>r. Inr (make_row fieldnames (saved_cells lib r))) xs)
          (c\<lparr>data := data c @ [rebuilt x]\<rparr>)
      = Inr (Some ((c\<lparr>data := data c @ [rebuilt x]\<rparr>)
             \<lparr>data := data (c\<lparr>data := data c @ [rebuilt x]\<rparr>) @ map rebuilt xs\<rparr>))"
    by simp
  ultimately show ?case by simp
qed

lemma save_then_load:
  assumes "data c \<noteq> []" "usable fs filename"
    "\<forall>r \<in> set (data c). text_record r \<and> reads_back lib r"
  shows "from_csv lib (save_to_csv lib c fs filename) filename
         = Inr (Some \<lparr> data = map rebuilt (data c) \<rparr>)"
proof -
  define items where "items = Row fieldnames # map Row (map (saved_cells lib) (data c))"
  have o: "open_read (save_to_csv lib c fs filename) filename = Inr items"
    using assms(1,2)
    by (simp add: save_to_csv_def open_read_def usable_def write_rows_eq items_def)
  have d: "DictReader items
      = map (\<lambda>r. Inr (make_row fieldnames (saved_cells lib r))) (data c)"
    using dict_rows_saved [OF assms(3)]
    by (simp add: DictReader_def items_def fieldnames_read del: reader_next.simps)
  have l: "load_rows lib (map (\<lambda>r. Inr (make_row fieldnames (saved_cells lib r))) (data c))
        ReferenceCollection_init
      = Inr (Some \<lparr> data = map rebuilt (data c) \<rparr>)"
    using load_saved_rows [OF assms(3), of ReferenceCollection_init]
    by (simp add: ReferenceCollection_init_def)
  show ?thesis
    by (simp only: from_csv_def o bind_def sum.case d l)
qed

text \<open>
  Why each condition is there. A carriage return comes back as a line feed, a numeric
  id comes back as its text, a name one character over the reader's limit makes the
  load raise, and where the open for writing fails nothing is saved.
\<close>

lemma save_then_load_carriage_return:
  "validate ref_cr = Inr ()
   \<and> from_csv demo_lib (save_to_csv demo_lib \<lparr> data = [ref_cr] \<rparr> no_dir_fs ''data.csv'')
       ''data.csv''
     = Inr (Some \<lparr> data = [ref_cr\<lparr>full_name := PyStr [CHR ''A'', CHR 0x0A, CHR ''B'']\<rparr>] \<rparr>)"
proof -
  have r: "reader_next (Row [''6'', ''2024-01-15'', [CHR ''A'', CHR 0x0D, CHR ''B''], ''900.0'', ''bank''])
      = Inr [''6'', ''2024-01-15'', [CHR ''A'', CHR 0x0A, CHR ''B''], ''900.0'', ''bank'']"
    by (simp add: py_len_def field_limit_def)
  have o: "open_read (save_to_csv demo_lib \<lparr> data = [ref_cr] \<rparr> no_dir_fs ''data.csv'') ''data.csv''
      = Inr [Row fieldnames,
             Row [''6'', ''2024-01-15'', [CHR ''A'', CHR 0x0D, CHR ''B''], ''900.0'', ''bank'']]"
    by (simp add: save_to_csv_def open_read_def no_dir_fs_def write_rows_eq saved_cells_def
        ref_cr_def new_ref_eq demo_lib_def)
  have d: "DictReader [Row fieldnames,
             Row [''6'', ''2024-01-15'', [CHR ''A'', CHR 0x0D, CHR ''B''], ''900.0'', ''bank'']]
      = [Inr (make_row fieldnames
                [''6'', ''2024-01-15'', [CHR ''A'', CHR 0x0A, CHR ''B''], ''900.0'', ''bank''])]"
    by (simp add: DictReader_def fieldnames_read r del: reader_next.simps)
  have l: "load_rows demo_lib
       [Inr (make_row fieldnames
               [''6'', ''2024-01-15'', [CHR ''A'', CHR 0x0A, CHR ''B''], ''900.0'', ''bank''])]
       ReferenceCollection_init
      = Inr (Some \<lparr> data = [ref_cr\<lparr>full_name := PyStr [CHR ''A'', CHR 0x0A, CHR ''B'']\<rparr>] \<rparr>)"
    by (simp add: load_row_def row_to_ref_full bind_def demo_lib_def validate_def
        ReferenceCollection_init_def ref_cr_def new_ref_eq)
  have v: "validate ref_cr = Inr ()"
    by (simp add: validate_def ref_cr_def new_ref_eq)
  have "from_csv demo_lib (save_to_csv demo_lib \<lparr> data = [ref_cr] \<rparr> no_dir_fs ''data.csv'')
       ''data.csv''
     = Inr (Some \<lparr> data = [ref_cr\<lparr>full_name := PyStr [CHR ''A'', CHR 0x0A, CHR ''B'']\<rparr>] \<rparr>)"
    by (simp only: from_csv_def o bind_def sum.case d l)
  with v show ?thesis by simp
qed

lemma save_then_load_int_id:
  "validate ref_int_id = Inr ()
   \<and> from_csv demo_lib (save_to_csv demo_lib \<lparr> data = [ref_int_id] \<rparr> no_dir_fs ''data.csv'')
       ''data.csv''
     = Inr (Some \<lparr> data = [ref_int_id\<lparr>ref_id := PyStr ''7''\<rparr>] \<rparr>)"
proof -
  have r: "reader_next (Row [''7'', ''2024-01-16'', ''Smirnov'', ''900.0'', ''bank''])
      = Inr [''7'', ''2024-01-16'', ''Smirnov'', ''900.0'', ''bank'']"
    by (rule reader_next_plain) (simp add: py_len_def field_limit_def)
  have o: "open_read (save_to_csv demo_lib \<lparr> data = [ref_int_id] \<rparr> no_dir_fs ''data.csv'')
        ''data.csv''
      = Inr [Row fieldnames, Row [''7'', ''2024-01-16'', ''Smirnov'', ''900.0'', ''bank'']]"
    by (simp add: save_to_csv_def open_read_def no_dir_fs_def write_rows_eq saved_cells_def
        ref_int_id_def StudentReference_init_def kwargs_get_def demo_lib_def str_int_def)
  have d: "DictReader [Row fieldnames, Row [''7'', ''2024-01-16'', ''Smirnov'', ''900.0'', ''bank'']]
      = [Inr (make_row fieldnames [''7'', ''2024-01-16'', ''Smirnov'', ''900.0'', ''bank''])]"
    by (simp add: DictReader_def fieldnames_read r del: reader_next.simps)
  have l: "load_rows demo_lib
       [Inr (make_row fieldnames [''7'', ''2024-01-16'', ''Smirnov'', ''900.0'', ''bank''])]
       ReferenceCollection_init
      = Inr (Some \<lparr> data = [ref_int_id\<lparr>ref_id := PyStr ''7''\<rparr>] \<rparr>)"
    by (simp add: load_row_def row_to_ref_full bind_def demo_lib_def validate_def
        ReferenceCollection_init_def ref_int_id_def StudentReference_init_def kwargs_get_def)
  have v: "validate ref_int_id = Inr ()"
    by (simp add: validate_def ref_int_id_def StudentReference_init_def kwargs_get_def)
  have "from_csv demo_lib (save_to_csv demo_lib \<lparr> data = [ref_int_id] \<rparr> no_dir_fs ''data.csv'')
       ''data.csv''
     = Inr (Some \<lparr> data = [ref_int_id\<lparr>ref_id := PyStr ''7''\<rparr>] \<rparr>)"
    by (simp only: from_csv_def o bind_def sum.case d l)
  with v show ?thesis by simp
qed

lemma py_len_replicate: "py_len (replicate n CHR ''x'') = n"
  by (induction n) (simp_all add: py_len_def)

lemma save_then_load_long_name:
  "validate ref_long_name = Inr ()
   \<and> from_csv demo_lib (save_to_csv demo_lib \<lparr> data = [ref_long_name] \<rparr> no_dir_fs ''data.csv'')
       ''data.csv''
     = Inl CsvError"
proof -
  let ?name = "replicate (Suc field_limit) CHR ''x''"
  have u: "universal_newlines ?name = ?name"
    by (rule universal_newlines_id) (simp only: set_replicate_conv_if, simp)
  have "field_limit < py_len (universal_newlines ?name)"
    by (simp only: u py_len_replicate lessI)
  then have r: "reader_next (Row [''9'', ''2024-01-18'', ?name, ''900.0'', ''bank'']) = Inl CsvError"
    by (simp del: replicate.simps replicate_Suc)
  have o: "open_read (save_to_csv demo_lib \<lparr> data = [ref_long_name] \<rparr> no_dir_fs ''data.csv'')
        ''data.csv''
      = Inr [Row fieldnames, Row [''9'', ''2024-01-18'', ?name, ''900.0'', ''bank'']]"
    by (simp add: save_to_csv_def open_read_def no_dir_fs_def write_rows_eq saved_cells_def
        ref_long_name_def new_ref_eq demo_lib_def del: replicate.simps replicate_Suc)
  have d: "DictReader [Row fieldnames, Row [''9'', ''2024-01-18'', ?name, ''900.0'', ''bank'']]
      = [Inl CsvError]"
    by (simp add: DictReader_def fieldnames_read r del: reader_next.simps replicate.simps replicate_Suc)
  have l: "load_rows demo_lib [Inl CsvError] ReferenceCollection_init = Inl CsvError"
    by simp
  have v: "validate ref_long_name = Inr ()"
    by (simp add: validate_def ref_long_name_def new_ref_eq)
  have "from_csv demo_lib (save_to_csv demo_lib \<lparr> data = [ref_long_name] \<rparr> no_dir_fs ''data.csv'')
       ''data.csv'' = Inl CsvError"
    by (simp only: from_csv_def o bind_def sum.case d l) simp
  with v show ?thesis by simp
qed

lemma save_then_load_open_fails:
  "save_to_csv demo_lib three_refs no_dir_fs ''nodir/data.csv'' = no_dir_fs
   \<and> from_csv demo_lib (save_to_csv demo_lib three_refs no_dir_fs ''nodir/data.csv'')
       ''nodir/data.csv'' = Inr None"
  by (simp add: save_to_csv_def no_dir_fs_def three_refs_def from_csv_def open_read_def bind_def)

text \<open>
  C4, as the code has it. Saving an empty collection leaves the file system as it was.
  For a collection that is not empty, a path that can be written in full and read
  again, and records that are valid, with strings free of carriage returns and within
  the reader's limit of 131072 characters as id, date, name and destination and a float
  as stipend that \<^verbatim>\<open>float\<close> reads back from its \<^verbatim>\<open>repr\<close>, saving to the path and
  loading it returns a collection of the same length whose records have the same five
  fields, in the same order.
\<close>

theorem save_then_load_roundtrip:
  "(data c = [] \<longrightarrow> save_to_csv lib c fs filename = fs)
   \<and> (data c \<noteq> [] \<and> usable fs filename
        \<and> list_all (\<lambda>r. text_record r \<and> reads_back lib r) (data c) \<longrightarrow>
      (\<exists>c'. from_csv lib (save_to_csv lib c fs filename) filename = Inr (Some c')
         \<and> length (data c') = length (data c)
         \<and> list_all2 same_fields (data c) (data c')))"
proof (intro conjI impI)
  assume "data c = []"
  then show "save_to_csv lib c fs filename = fs" by (simp add: save_to_csv_def)
next
  assume a: "data c \<noteq> [] \<and> usable fs filename
      \<and> list_all (\<lambda>r. text_record r \<and> reads_back lib r) (data c)"
  let ?c = "\<lparr> data = map rebuilt (data c) \<rparr>"
  from a have "from_csv lib (save_to_csv lib c fs filename) filename = Inr (Some ?c)"
    by (intro save_then_load) (simp_all add: list_all_iff)
  moreover have "list_all2 same_fields (data c) (data ?c)"
    by (simp add: list_all2_map2 same_fields_def list_all2_same rebuilt_def)
  ultimately show "\<exists>c'. from_csv lib (save_to_csv lib c fs filename) filename = Inr (Some c')
      \<and> length (data c') = length (data c) \<and> list_all2 same_fields (data c) (data c')"
    by auto
qed

theorem save_then_load_roundtrip_witness:
  "data three_refs \<noteq> [] \<and> usable no_dir_fs ''data.csv''
   \<and> list_all (\<lambda>r. text_record r \<and> reads_back demo_lib r) (data three_refs)
   \<and> (\<exists>c'. from_csv demo_lib (save_to_csv demo_lib three_refs no_dir_fs ''data.csv'') ''data.csv''
              = Inr (Some c')
         \<and> length (data c') = 3 \<and> list_all2 same_fields (data three_refs) (data c'))
   \<and> data ReferenceCollection_init = []
   \<and> save_to_csv demo_lib ReferenceCollection_init no_dir_fs ''data.csv'' = no_dir_fs"
proof -
  have n: "data three_refs \<noteq> []" by (simp add: three_refs_def)
  have u: "usable no_dir_fs ''data.csv''" by (simp add: usable_def no_dir_fs_def)
  have t: "list_all (\<lambda>r. text_record r \<and> reads_back demo_lib r) (data three_refs)"
    by (simp add: three_refs_def ref_a_def ref_b_def ref_c_def new_ref_eq text_record_def
        reads_back_def demo_lib_def py_len_def field_limit_def)
  have l: "length (data three_refs) = 3" by (simp add: three_refs_def)
  have e: "data ReferenceCollection_init = []" by (simp add: ReferenceCollection_init_def)
  from save_then_load_roundtrip [of three_refs demo_lib no_dir_fs "''data.csv''"] n u t l
  have 1: "\<exists>c'. from_csv demo_lib (save_to_csv demo_lib three_refs no_dir_fs ''data.csv'')
              ''data.csv'' = Inr (Some c')
         \<and> length (data c') = 3 \<and> list_all2 same_fields (data three_refs) (data c')"
    by simp
  from save_then_load_roundtrip [of ReferenceCollection_init demo_lib no_dir_fs "''data.csv''"] e
  have 2: "save_to_csv demo_lib ReferenceCollection_init no_dir_fs ''data.csv'' = no_dir_fs"
    by blast
  from n u t 1 e 2 show ?thesis by blast
qed

theorem save_empty_then_load_counterexample:
  "data ReferenceCollection_init = []
   \<and> from_csv demo_lib (save_to_csv demo_lib ReferenceCollection_init no_dir_fs ''data.csv'')
       ''data.csv'' = Inr None"
  by (simp add: ReferenceCollection_init_def save_to_csv_def no_dir_fs_def from_csv_def
      open_read_def bind_def)

end
